theory Spec2Isabelle
  imports Complex_Main "HOL-Library.AList" "HOL-Library.Sublist"
begin

section \<open>Python values and failures\<close>

text \<open>
  The converter of \<^verbatim>\<open>src/main.py\<close> is a tree of functions over the dictionary read
  from a JSON file. Every exception of the source is a value: a function that can raise
  returns \<open>error + 'a\<close>, with \<open>Inl\<close> the exception.
\<close>

datatype error =
    KeyError string
  | ValueError string
  | ZeroDivisionError
  | AttributeError string

definition and_then :: "error + 'a \<Rightarrow> ('a \<Rightarrow> error + 'b) \<Rightarrow> error + 'b" where
  "and_then m f = (case m of Inl e \<Rightarrow> Inl e | Inr x \<Rightarrow> f x)"

text \<open>A loop that builds a list and stops at the first exception.\<close>

fun traverse :: "('a \<Rightarrow> error + 'b) \<Rightarrow> 'a list \<Rightarrow> error + 'b list" where
  "traverse f [] = Inr []"
| "traverse f (x # xs) =
     (case f x of
        Inl e \<Rightarrow> Inl e
      | Inr y \<Rightarrow> (case traverse f xs of Inl e \<Rightarrow> Inl e | Inr ys \<Rightarrow> Inr (y # ys)))"

text \<open>\<^verbatim>\<open>d[k]\<close> on a dictionary given by its items.\<close>

definition dict_get :: "(string \<times> 'v) list \<Rightarrow> string \<Rightarrow> error + 'v" where
  "dict_get d k = (case map_of d k of None \<Rightarrow> Inl (KeyError k) | Some v \<Rightarrow> Inr v)"

section \<open>Strings\<close>

definition digit :: "nat \<Rightarrow> char" where
  "digit n = char_of (48 + n)"

fun str_nat :: "nat \<Rightarrow> string" where
  "str_nat n = (if n < 10 then [digit n] else str_nat (n div 10) @ [digit (n mod 10)])"

declare str_nat.simps [simp del]

text \<open>\<^verbatim>\<open>f"{i}"\<close> and \<^verbatim>\<open>f"{i:+}"\<close> for a Python int.\<close>

definition str_int :: "int \<Rightarrow> string" where
  "str_int i = (if i < 0 then ''-'' @ str_nat (nat (- i)) else str_nat (nat i))"

definition str_signed :: "int \<Rightarrow> string" where
  "str_signed i = (if i < 0 then ''-'' @ str_nat (nat (- i)) else ''+'' @ str_nat (nat i))"

text \<open>\<^verbatim>\<open>sep.join(xs)\<close>.\<close>

fun join :: "string \<Rightarrow> string list \<Rightarrow> string" where
  "join sep [] = []"
| "join sep [x] = x"
| "join sep (x # y # ys) = x @ sep @ join sep (y # ys)"

text \<open>
  \<^verbatim>\<open>str.lower\<close> and \<^verbatim>\<open>str.title\<close> on ASCII text: a character is cased when it is a
  letter; \<^verbatim>\<open>title\<close> upper-cases a letter that follows an uncased character and lower-cases
  one that follows a cased character.
\<close>

definition is_upper :: "char \<Rightarrow> bool" where
  "is_upper c = (65 \<le> (of_char c :: nat) \<and> (of_char c :: nat) \<le> 90)"

definition is_lower :: "char \<Rightarrow> bool" where
  "is_lower c = (97 \<le> (of_char c :: nat) \<and> (of_char c :: nat) \<le> 122)"

definition lower_char :: "char \<Rightarrow> char" where
  "lower_char c = (if is_upper c then char_of ((of_char c :: nat) + 32) else c)"

definition upper_char :: "char \<Rightarrow> char" where
  "upper_char c = (if is_lower c then char_of ((of_char c :: nat) - 32) else c)"

definition lower :: "string \<Rightarrow> string" where
  "lower s = map lower_char s"

fun title_from :: "bool \<Rightarrow> string \<Rightarrow> string" where
  "title_from prev [] = []"
| "title_from prev (c # cs) =
     (if prev then lower_char c else upper_char c) # title_from (is_upper c \<or> is_lower c) cs"

definition title :: "string \<Rightarrow> string" where
  "title s = title_from False s"

text \<open>
  \<^verbatim>\<open>s.replace(old, new)\<close>: every non-overlapping occurrence of \<open>old\<close>, from the left.
\<close>

fun replace :: "string \<Rightarrow> string \<Rightarrow> string \<Rightarrow> string" where
  "replace old new [] = (if old = [] then new else [])"
| "replace old new (c # cs) =
     (if old = [] then new @ c # replace old new cs
      else if prefix old (c # cs) then new @ replace old new (drop (length old - 1) cs)
      else c # replace old new cs)"

text \<open>
  \<^verbatim>\<open>Counter(xs).items()\<close>: the distinct elements in first-seen order, each with the
  number of its occurrences.
\<close>

definition Counter :: "'a list \<Rightarrow> ('a \<times> int) list" where
  "Counter xs =
     foldl (\<lambda>c x. AList.update x (case map_of c x of None \<Rightarrow> 1 | Some n \<Rightarrow> n + 1) c) [] xs"

section \<open>Derivation of numbers\<close>

definition calc_modifier :: "int \<Rightarrow> int" where
  "calc_modifier score = (score - 10) div 2"

text \<open>
  \<^verbatim>\<open>dice_avg\<close> returns a Python float. The values it takes here are halves of integers,
  which binary floating point holds exactly below \<open>2 ^ 52\<close>; the model computes with
  rational numbers.
\<close>

definition dice_avg :: "int \<Rightarrow> rat" where
  "dice_avg dice_type = (of_int dice_type + 1) / 2"

definition calc_dice :: "int \<Rightarrow> int \<Rightarrow> int" where
  "calc_dice count dice_type = \<lfloor>of_int count * dice_avg dice_type\<rfloor>"

definition damage_str :: "int \<Rightarrow> int \<Rightarrow> int \<Rightarrow> string \<Rightarrow> string" where
  "damage_str count dice_type modifier damage_type =
     str_int (calc_dice count dice_type + modifier) @ '' ''
     @ ''('' @ str_int count @ ''d'' @ str_int dice_type @ str_signed modifier @ '') ''
     @ damage_type @ '' damage''"

section \<open>The input record\<close>

text \<open>
  The dictionaries of the input, one record per kind of JSON object, each field a key the
  source reads (the prefix of a field name tells the object; the rest is the JSON key).
  A key read with \<^verbatim>\<open>d[k]\<close> on an object of fixed shape is a field; a key read with
  \<^verbatim>\<open>d.get(k)\<close>, or one that only some of the objects reaching the read carry, is an
  \<open>option\<close>; a dictionary indexed by a computed key is the list of its items.
\<close>

record modifier_spec =
  mod_override :: bool
  mod_overrideValue :: int
  mod_stat :: string

record damage =
  dmg_count :: int
  dmg_dice :: int
  dmg_modifier :: modifier_spec
  dmg_type :: string

text \<open>
  The source reads \<^verbatim>\<open>active\<close>, \<^verbatim>\<open>modifier\<close>, \<^verbatim>\<open>count\<close>, \<^verbatim>\<open>dice\<close> and
  \<^verbatim>\<open>condition\<close> of the alternate damage; \<open>alt_type\<close> is the damage type the input
  gives it, which the source does not read.
\<close>

record alternate_damage =
  alt_active :: bool
  alt_count :: int
  alt_dice :: int
  alt_modifier :: modifier_spec
  alt_type :: string
  alt_condition :: string

record additional_damage =
  add_count :: int
  add_dice :: int
  add_type :: string

record attack_range =
  rng_reach :: int
  rng_standard :: int
  rng_long :: int

record attack =
  atk_id :: string
  atk_name :: string
  atk_distance :: string
  atk_kind :: string
  atk_modifier :: modifier_spec
  atk_range :: attack_range
  atk_targets :: int
  atk_damage :: damage
  atk_alternateDamage :: alternate_damage
  atk_additionalDamage :: "additional_damage list"
  atk_description :: string
  atk_legendaryOnly :: "bool option"

record limited_use =
  lu_count :: int
  lu_rate :: string

record action =
  act_id :: string
  act_name :: string
  act_description :: string
  act_limitedUse :: "limited_use option"
  act_legendaryOnly :: bool
  act_bonusAction :: bool

record trait =
  tr_name :: string
  tr_description :: string
  tr_limitedUse :: limited_use

record multiattack =
  ma_attacks :: "string list"
  ma_actions :: "string list"

record legendary_ref =
  la_actionId :: string
  la_cost :: int

record save_spec =
  sv_override :: bool
  sv_overrideValue :: int
  sv_proficient :: bool

record skill_spec =
  sk_label :: string
  sk_stat :: string
  sk_override :: bool
  sk_overrideValue :: int
  sk_proficient :: bool
  sk_expertise :: bool

record speed_spec =
  sp_type :: string
  sp_speed :: int
  sp_note :: string

record hit_points =
  hp_HD :: int
  hp_type :: int

record json_stats =
  m_name :: string
  m_size :: string
  m_type :: string
  m_alignment :: string
  m_languages :: string
  m_AC :: int
  m_CR :: rat
  m_useArticleInToken :: bool
  m_proficiency :: int
  m_stats :: "(string \<times> int) list"
  m_HP :: hit_points
  m_saves :: "(string \<times> save_spec) list"
  m_skills :: "skill_spec list"
  m_senses :: "(string \<times> int) list"
  m_speeds :: "speed_spec list"
  m_vulnerabilities :: "string list"
  m_resistances :: "string list"
  m_immunities :: "string list"
  m_conditions :: "string list"
  m_traits :: "trait list"
  m_attacks :: "attack list"
  m_actions :: "action list"
  m_reactions :: "action list"
  m_multiattacks :: "multiattack list"
  m_legendaryActions :: "legendary_ref list"

text \<open>The keys of \<^verbatim>\<open>ABILITIES\<close>, in the order of the dictionary, with their values.\<close>

definition ABILITIES :: "(string \<times> string) list" where
  "ABILITIES =
     [(''STR'', ''strength''), (''DEX'', ''dexterity''), (''CON'', ''constitution''),
      (''INT'', ''intelligence''), (''WIS'', ''wisdom''), (''CHA'', ''charisma'')]"

section \<open>Looking up an attack or an action by id\<close>

text \<open>What \<^verbatim>\<open>get_action\<close> returns: one of the attack or action dictionaries.\<close>

datatype entry = Attack attack | Action action

definition entry_name :: "entry \<Rightarrow> string" where
  "entry_name e = (case e of Attack a \<Rightarrow> atk_name a | Action a \<Rightarrow> act_name a)"

definition entry_description :: "entry \<Rightarrow> string" where
  "entry_description e =
     (case e of Attack a \<Rightarrow> atk_description a | Action a \<Rightarrow> act_description a)"

definition entry_limitedUse :: "entry \<Rightarrow> limited_use option" where
  "entry_limitedUse e = (case e of Attack a \<Rightarrow> None | Action a \<Rightarrow> act_limitedUse a)"

definition entry_legendaryOnly :: "entry \<Rightarrow> error + bool" where
  "entry_legendaryOnly e =
     (case e of
        Attack a \<Rightarrow>
          (case atk_legendaryOnly a of
             None \<Rightarrow> Inl (KeyError ''legendaryOnly'')
           | Some b \<Rightarrow> Inr b)
      | Action a \<Rightarrow> Inr (act_legendaryOnly a))"

definition not_found :: "string \<Rightarrow> error" where
  "not_found ident = ValueError (''Attack with ID '' @ ident @ '' not found'')"

definition get_action :: "string \<Rightarrow> json_stats \<Rightarrow> error + entry" where
  "get_action ident js =
     (case find (\<lambda>attack. atk_id attack = ident) (m_attacks js) of
        Some attack \<Rightarrow> Inr (Attack attack)
      | None \<Rightarrow>
          (case find (\<lambda>action. act_id action = ident) (m_actions js) of
             Some action \<Rightarrow> Inr (Action action)
           | None \<Rightarrow> Inl (not_found ident)))"

section \<open>Multiattack\<close>

text \<open>
  \<open>num2words\<close> is the function of that name of the library the source imports: the English
  word of an integer. It is a parameter of every function that calls it.
\<close>

text \<open>The body of the loop over the collated attacks (lines 61 to 69).\<close>

definition render_attack ::
  "(int \<Rightarrow> string) \<Rightarrow> json_stats \<Rightarrow> nat \<Rightarrow> nat \<times> string \<times> int \<Rightarrow> error + string" where
  "render_attack num2words js len = (\<lambda>(index, ident, count).
     and_then (get_action ident js) (\<lambda>e.
       Inr ((if index = len - 1 \<and> len > 1 then ''and '' else [])
            @ num2words count @ '' '' @ entry_name e @ '' attack''
            @ (if count > 1 then ''s'' else []))))"

text \<open>The body of the loop over the collated actions (lines 76 to 78).\<close>

definition render_action ::
  "(int \<Rightarrow> string) \<Rightarrow> json_stats \<Rightarrow> string \<times> int \<Rightarrow> error + string" where
  "render_action num2words js = (\<lambda>(ident, count).
     and_then (get_action ident js) (\<lambda>e. Inr (num2words count @ '' '' @ entry_name e)))"

text \<open>
  One round of the loop over the multiattack groups (lines 54 to 90). The list
  \<open>actions\<close> is created empty and the second loop appends to \<open>attacks\<close>, as in the
  source.
\<close>

definition render_group :: "(int \<Rightarrow> string) \<Rightarrow> json_stats \<Rightarrow> multiattack \<Rightarrow> error + string" where
  "render_group num2words js ma =
     (let items = Counter (ma_attacks ma) in
      and_then (traverse (render_attack num2words js (length items)) (List.enumerate 0 items))
        (\<lambda>attacks0.
      and_then (traverse (render_action num2words js) (Counter (ma_actions ma)))
        (\<lambda>appended.
      let actions = ([] :: string list);
          attacks = attacks0 @ appended
      in Inr (if actions \<noteq> []
              then (if attacks \<noteq> []
                    then ''uses '' @ join '', '' actions @ '' followed by '' @ join '', '' attacks
                    else [])
              else ''makes '' @ join '', '' attacks))))"

definition process_multiattack :: "(int \<Rightarrow> string) \<Rightarrow> json_stats \<Rightarrow> error + string" where
  "process_multiattack num2words js =
     and_then (traverse (render_group num2words js) (m_multiattacks js))
       (\<lambda>rendered_ma. Inr (m_name js @ '' '' @ join '' or '' rendered_ma @ ''.''))"

section \<open>Descriptions\<close>

text \<open>The \<open>{name, desc}\<close> pairs of the output lists.\<close>

record item =
  item_name :: string
  item_desc :: string

text \<open>
  The loop over \<^verbatim>\<open>ABILITIES\<close> of \<^verbatim>\<open>process_description\<close> (lines 211 to 219):
  the save DC tag, then the attack modifier tag, of each ability in turn.
\<close>

fun ability_tags :: "json_stats \<Rightarrow> string list \<Rightarrow> string \<Rightarrow> error + string" where
  "ability_tags js [] description = Inr description"
| "ability_tags js (ability # rest) description =
     and_then (dict_get (m_stats js) ability) (\<lambda>score.
       let bonus = calc_modifier score + m_proficiency js in
       ability_tags js rest
         (replace (''{A:'' @ ability @ ''}'') (str_signed bonus)
            (replace (''{DC:'' @ ability @ ''}'') (''DC '' @ str_int (8 + bonus)) description)))"

definition process_description :: "string \<Rightarrow> json_stats \<Rightarrow> error + string" where
  "process_description description js =
     and_then (ability_tags js (map fst ABILITIES) description) (\<lambda>d1.
       let name_str = (if m_useArticleInToken js then ''the '' @ m_name js else m_name js);
           d2 = replace ''{NAME}'' name_str (replace ''{monster.name}'' name_str d1);
           d3 = replace ''{monster.proficiency}'' (str_int (m_proficiency js)) d2;
           d4 = replace ''{monster.AC}'' (str_int (m_AC js)) d3;
           dice_count = hp_HD (m_HP js)
       in and_then (dict_get (m_stats js) ''CON'') (\<lambda>con.
            let hp_bonus = calc_modifier con * dice_count
            in Inr (replace ''{monster.hp}''
                      (str_int dice_count @ ''d'' @ str_int (hp_type (m_HP js))
                       @ str_signed hp_bonus) d4)))"

section \<open>Attacks\<close>

text \<open>
  The block the source repeats for the hit modifier, the damage modifier and the modifier
  of the alternate damage (lines 118 to 122, 137 to 141, 152 to 156).
\<close>

definition resolve_modifier :: "json_stats \<Rightarrow> modifier_spec \<Rightarrow> error + int" where
  "resolve_modifier js modifier =
     (if mod_override modifier then Inr (mod_overrideValue modifier)
      else and_then (dict_get (m_stats js) (mod_stat modifier))
             (\<lambda>score. Inr (calc_modifier score)))"

text \<open>
  The range clause (lines 129 and 130). The source divides the standard range by the long
  range, which gives a Python float or raises on a zero long range; \<open>float_str\<close> is the
  text Python prints for the float nearest to a rational number, a parameter of the model.
\<close>

definition range_clause :: "(rat \<Rightarrow> string) \<Rightarrow> attack \<Rightarrow> error + string" where
  "range_clause float_str attack =
     (if atk_distance attack \<in> set [''BOTH'', ''RANGED'']
      then (if rng_long (atk_range attack) = 0 then Inl ZeroDivisionError
            else Inr (''range ''
                      @ float_str (of_int (rng_standard (atk_range attack))
                                   / of_int (rng_long (atk_range attack)))
                      @ '' ft.''))
      else Inr [])"

text \<open>The variable \<^verbatim>\<open>attack_str\<close> at the end of line 134.\<close>

definition attack_str ::
  "(int \<Rightarrow> string) \<Rightarrow> (rat \<Rightarrow> string) \<Rightarrow> json_stats \<Rightarrow> attack \<Rightarrow> error + string" where
  "attack_str num2words float_str js attack =
     (let distance = (if atk_distance attack = ''BOTH'' then ''Melee or Ranged''
                      else atk_distance attack);
          s1 = title (distance @ '' '' @ atk_kind attack @ '' Attack: '')
      in and_then (resolve_modifier js (atk_modifier attack)) (\<lambda>modifier.
           let s2 = s1 @ str_signed modifier @ '' to hit, '';
               reach = (if atk_distance attack \<in> set [''BOTH'', ''MELEE'']
                        then ''reach '' @ str_int (rng_reach (atk_range attack)) @ '' ft.''
                        else [])
           in and_then (range_clause float_str attack) (\<lambda>range_clause_text.
                let s3 = s2 @ join '' or '' (filter (\<lambda>s. s \<noteq> []) [reach, range_clause_text])
                         @ '', '';
                    targets = atk_targets attack
                in Inr (s3 @ num2words targets @ '' target''
                        @ (if targets > 1 then ''s'' else []) @ ''. ''))))"

text \<open>The text of the additional damages (lines 165 to 178).\<close>

definition additional_text :: "additional_damage list \<Rightarrow> string" where
  "additional_text additional_damages =
     (if additional_damages \<noteq> []
      then '' plus ''
           @ concat (map (\<lambda>(i, damage).
                 damage_str (add_count damage) (add_dice damage) 0 (add_type damage)
                 @ (if i = length additional_damages - 1 then '', and ''
                    else if i < length additional_damages then '', '' else []))
               (List.enumerate 1 additional_damages))
      else [])"

text \<open>The variable \<^verbatim>\<open>description\<close> at the end of line 182, before the tags are replaced.\<close>

definition attack_description :: "json_stats \<Rightarrow> attack \<Rightarrow> error + string" where
  "attack_description js attack =
     and_then (resolve_modifier js (dmg_modifier (atk_damage attack))) (\<lambda>modifier.
       let d1 = ''Hit: '' @ damage_str (dmg_count (atk_damage attack))
                  (dmg_dice (atk_damage attack)) modifier (dmg_type (atk_damage attack));
           alternate_damage = atk_alternateDamage attack
       in and_then
            (if alt_active alternate_damage
             then and_then (resolve_modifier js (alt_modifier alternate_damage)) (\<lambda>modifier.
                    Inr (d1 @ '', or ''
                         @ damage_str (alt_count alternate_damage) (alt_dice alternate_damage)
                             modifier (dmg_type (atk_damage attack))
                         @ '' '' @ alt_condition alternate_damage))
             else Inr d1)
            (\<lambda>d2.
               let d3 = d2 @ additional_text (atk_additionalDamage attack) @ ''.''
               in Inr (if atk_description attack \<noteq> []
                       then d3 @ '' '' @ atk_description attack else d3)))"

text \<open>
  One round of the loop of \<^verbatim>\<open>process_attacks\<close>: \<^verbatim>\<open>attack_str\<close> is computed and
  then not used, the entry is made of \<^verbatim>\<open>description\<close> alone (lines 184 to 189).
\<close>

definition process_attack ::
  "(int \<Rightarrow> string) \<Rightarrow> (rat \<Rightarrow> string) \<Rightarrow> json_stats \<Rightarrow> attack \<Rightarrow> error + item" where
  "process_attack num2words float_str js attack =
     and_then (attack_str num2words float_str js attack) (\<lambda>unused.
     and_then (attack_description js attack) (\<lambda>description.
     and_then (process_description description js) (\<lambda>desc.
       Inr \<lparr>item_name = atk_name attack, item_desc = desc\<rparr>)))"

definition process_attacks ::
  "(int \<Rightarrow> string) \<Rightarrow> (rat \<Rightarrow> string) \<Rightarrow> json_stats \<Rightarrow> error + item list" where
  "process_attacks num2words float_str js =
     traverse (process_attack num2words float_str js) (m_attacks js)"

section \<open>Actions, reactions, legendary actions\<close>

definition process_action :: "entry \<Rightarrow> json_stats \<Rightarrow> error + item" where
  "process_action action js =
     (let name = entry_name action;
          limited_use = entry_limitedUse action;
          name' = (case limited_use of
                     None \<Rightarrow> name
                   | Some lu \<Rightarrow>
                       if lu_count lu \<noteq> 0
                       then name @ '' ('' @ str_int (lu_count lu) @ ''/day)'' else name)
      in and_then (process_description (entry_description action) js) (\<lambda>desc.
           Inr \<lparr>item_name = name', item_desc = desc\<rparr>))"

text \<open>
  One round of the loop of \<^verbatim>\<open>process_legendary_actions\<close> (lines 259 to 269): the
  value of the variable \<^verbatim>\<open>action\<close> when the round ends.
\<close>

definition legendary_item :: "json_stats \<Rightarrow> legendary_ref \<Rightarrow> error + item" where
  "legendary_item js action_info =
     and_then (get_action (la_actionId action_info) js) (\<lambda>action.
     and_then (entry_legendaryOnly action) (\<lambda>legendaryOnly.
     and_then
       (if legendaryOnly then process_action action js
        else Inr \<lparr>item_name = entry_name action,
                  item_desc = ''The '' @ m_name js @ '' uses its '' @ entry_name action
                              @ '' action.''\<rparr>)
       (\<lambda>it.
          let cost = la_cost action_info
          in Inr (if cost \<noteq> 1
                  then it\<lparr>item_name := item_name it @ '' (Costs '' @ str_int cost @ '' Actions)''\<rparr>
                  else it))))"

text \<open>
  The list \<^verbatim>\<open>actions\<close> is created empty, no round of the loop appends to it, and it is
  returned (lines 257 and 270).
\<close>

definition process_legendary_actions :: "json_stats \<Rightarrow> error + item list" where
  "process_legendary_actions js =
     (let actions = ([] :: item list)
      in and_then (traverse (legendary_item js) (m_legendaryActions js))
           (\<lambda>rounds. Inr actions))"

section \<open>Speeds\<close>

definition speed_str :: "speed_spec \<Rightarrow> string" where
  "speed_str speed =
     (let s = (if sp_type speed = ''walk'' then str_int (sp_speed speed) @ '' ft.''
               else sp_type speed @ '' '' @ str_int (sp_speed speed) @ '' ft.'')
      in if sp_note speed \<noteq> [] then s @ '' ('' @ sp_note speed @ '')'' else s)"

definition process_speed :: "json_stats \<Rightarrow> string" where
  "process_speed js = join '', '' (map speed_str (m_speeds js))"

section \<open>The conversion\<close>

text \<open>The dictionary \<^verbatim>\<open>stats\<close> that \<^verbatim>\<open>parse_stats\<close> returns, a field per key.\<close>

record stats =
  o_layout :: string
  o_dice :: bool
  o_name :: string
  o_size :: string
  o_type :: string
  o_alignment :: string
  o_languages :: string
  o_ac :: int
  o_cr :: rat
  o_damage_vulnerabilities :: string
  o_damage_resistances :: string
  o_damage_immunities :: string
  o_condition_immunities :: string
  o_speed :: string
  o_abilities :: "int list"
  o_hp :: int
  o_hit_dice :: string
  o_skillsaves :: "(string \<times> int) list"
  o_senses :: string
  o_traits :: "item list"
  o_actions :: "item list"
  o_reactions :: "item list"
  o_bonus_actions :: "item list"
  o_legendary_actions :: "item list"

text \<open>
  The loop over the saving throws (lines 345 to 351). Its dictionary is built and not
  stored in the output; the reads it makes can raise.
\<close>

fun saves_loop ::
  "json_stats \<Rightarrow> (string \<times> string) list \<Rightarrow> (string \<times> int) list \<Rightarrow> error + (string \<times> int) list" where
  "saves_loop js [] saves = Inr saves"
| "saves_loop js ((abbr, stat) # rest) saves =
     and_then (dict_get (m_saves js) abbr) (\<lambda>json_save.
       if sv_override json_save
       then saves_loop js rest (AList.update stat (sv_overrideValue json_save) saves)
       else if sv_proficient json_save
       then and_then (dict_get (m_stats js) abbr) (\<lambda>score.
              saves_loop js rest
                (AList.update stat (calc_modifier score + m_proficiency js) saves))
       else saves_loop js rest saves)"

text \<open>The loop over the skills (lines 354 to 365).\<close>

fun skills_loop ::
  "json_stats \<Rightarrow> skill_spec list \<Rightarrow> (string \<times> int) list \<Rightarrow> error + (string \<times> int) list" where
  "skills_loop js [] skills = Inr skills"
| "skills_loop js (json_skill # rest) skills =
     (let name = lower (sk_label json_skill)
      in if sk_override json_skill
         then skills_loop js rest (AList.update name (sk_overrideValue json_skill) skills)
         else if sk_proficient json_skill
         then and_then (dict_get (m_stats js) (sk_stat json_skill)) (\<lambda>score.
                let v = calc_modifier score + m_proficiency js
                in skills_loop js rest
                     (AList.update name
                        (if sk_expertise json_skill then v + m_proficiency js else v) skills))
         else skills_loop js rest skills)"

text \<open>The senses (lines 369 to 380), from the input and the skills just computed.\<close>

definition passive_perception :: "(string \<times> int) list \<Rightarrow> int" where
  "passive_perception skills =
     (case map_of skills ''perception'' of None \<Rightarrow> 0 | Some bonus \<Rightarrow> 0 + bonus)"

definition senses_str :: "json_stats \<Rightarrow> (string \<times> int) list \<Rightarrow> string" where
  "senses_str js skills =
     (let sense_strs =
            map (\<lambda>(sense, distance). title sense @ '' '' @ str_int distance @ '' ft.'')
              (filter (\<lambda>(sense, distance). distance \<noteq> 0) (m_senses js));
          perception = passive_perception skills
      in join '', '' (sense_strs @ [''Passive Perception '' @ str_int perception]))"

text \<open>
  One round of the loop over the traits (lines 386 to 396). \<^verbatim>\<open>name\<close> is a Python
  \<^verbatim>\<open>str\<close>, which has no \<^verbatim>\<open>append\<close>: line 389 raises.
\<close>

definition process_trait :: "json_stats \<Rightarrow> trait \<Rightarrow> error + item" where
  "process_trait js json_trait =
     (let name = tr_name json_trait;
          uses = tr_limitedUse json_trait
      in if lu_count uses \<noteq> 0 then Inl (AttributeError ''append'')
         else and_then (process_description (tr_description json_trait) js) (\<lambda>desc.
                Inr \<lparr>item_name = name, item_desc = desc\<rparr>))"

definition parse_stats ::
  "(int \<Rightarrow> string) \<Rightarrow> (rat \<Rightarrow> string) \<Rightarrow> json_stats \<Rightarrow> error + stats" where
  "parse_stats num2words float_str js =
     (let proficiency_bonus = m_proficiency js;
          abilities = m_stats js
      in
      and_then (traverse (dict_get abilities) [''STR'', ''DEX'', ''CON'', ''INT'', ''WIS'', ''CHA''])
        (\<lambda>ability_scores.
      let hp_info = m_HP js;
          num_dice = hp_HD hp_info;
          dice_type = hp_type hp_info
      in
      and_then (dict_get abilities ''CON'') (\<lambda>con.
      let hp = \<lfloor>dice_avg dice_type * of_int num_dice + of_int (calc_modifier con * num_dice)\<rfloor>
      in
      and_then (saves_loop js ABILITIES []) (\<lambda>saves.
      and_then (skills_loop js (m_skills js) []) (\<lambda>skills.
      and_then (traverse (process_trait js) (m_traits js)) (\<lambda>traits.
      and_then (process_multiattack num2words js) (\<lambda>multiattack.
      and_then
        (if multiattack \<noteq> []
         then and_then (process_multiattack num2words js) (\<lambda>desc.
                Inr [\<lparr>item_name = ''Multiattack'', item_desc = desc\<rparr>])
         else Inr [])
        (\<lambda>actions0.
      and_then (process_attacks num2words float_str js) (\<lambda>actions1.
      and_then
        (traverse (\<lambda>action. process_action (Action action) js)
           (filter (\<lambda>action. \<not> (act_legendaryOnly action \<or> act_bonusAction action))
              (m_actions js)))
        (\<lambda>actions2.
      and_then (traverse (\<lambda>reaction. process_action (Action reaction) js) (m_reactions js))
        (\<lambda>reactions.
      and_then
        (traverse (\<lambda>a. process_action (Action a) js) (filter act_bonusAction (m_actions js)))
        (\<lambda>bonus_actions.
      and_then (process_legendary_actions js) (\<lambda>legendary_actions.
        Inr \<lparr>o_layout = ''Basic 5e Layout'',
             o_dice = True,
             o_name = m_name js,
             o_size = m_size js,
             o_type = m_type js,
             o_alignment = m_alignment js,
             o_languages = m_languages js,
             o_ac = m_AC js,
             o_cr = m_CR js,
             o_damage_vulnerabilities = join '', '' (m_vulnerabilities js),
             o_damage_resistances = join '', '' (m_resistances js),
             o_damage_immunities = join '', '' (m_immunities js),
             o_condition_immunities = join '', '' (m_conditions js),
             o_speed = process_speed js,
             o_abilities = ability_scores,
             o_hp = hp,
             o_hit_dice = str_int num_dice @ ''d'' @ str_int dice_type,
             o_skillsaves = skills,
             o_senses = senses_str js skills,
             o_traits = traits,
             o_actions = actions0 @ actions1 @ actions2,
             o_reactions = reactions,
             o_bonus_actions = bonus_actions,
             o_legendary_actions = legendary_actions\<rparr>)))))))))))))"

section \<open>A monster to compute on\<close>

text \<open>
  Stand-ins for the two library functions on the values the examples reach: the words of
  the numbers one to three, and the text of the float \<open>0.25\<close>.
\<close>

definition small_words :: "int \<Rightarrow> string" where
  "small_words n =
     (if n = 1 then ''one'' else if n = 2 then ''two'' else if n = 3 then ''three''
      else ''many'')"

definition quarter_text :: "rat \<Rightarrow> string" where
  "quarter_text r = (if r = 1 / 4 then ''0.25'' else ''1.0'')"

definition no_save :: save_spec where
  "no_save = \<lparr>sv_override = False, sv_overrideValue = 0, sv_proficient = False\<rparr>"

definition by_stat :: "string \<Rightarrow> modifier_spec" where
  "by_stat s = \<lparr>mod_override = False, mod_overrideValue = 0, mod_stat = s\<rparr>"

definition claw :: attack where
  "claw =
     \<lparr>atk_id = ''a1'', atk_name = ''Claw'', atk_distance = ''MELEE'', atk_kind = ''WEAPON'',
      atk_modifier = by_stat ''STR'',
      atk_range = \<lparr>rng_reach = 5, rng_standard = 0, rng_long = 0\<rparr>,
      atk_targets = 1,
      atk_damage = \<lparr>dmg_count = 2, dmg_dice = 6, dmg_modifier = by_stat ''STR'',
                     dmg_type = ''slashing''\<rparr>,
      atk_alternateDamage = \<lparr>alt_active = False, alt_count = 0, alt_dice = 0,
                              alt_modifier = by_stat ''STR'', alt_type = [],
                              alt_condition = []\<rparr>,
      atk_additionalDamage = [],
      atk_description = [],
      atk_legendaryOnly = Some False\<rparr>"

definition tail :: attack where
  "tail = claw\<lparr>atk_id := ''a2'', atk_name := ''Tail''\<rparr>"

definition longbow :: attack where
  "longbow =
     claw\<lparr>atk_id := ''a3'', atk_name := ''Longbow'', atk_distance := ''RANGED'',
          atk_modifier := by_stat ''DEX'',
          atk_range := \<lparr>rng_reach = 0, rng_standard = 30, rng_long = 120\<rparr>,
          atk_damage := \<lparr>dmg_count = 1, dmg_dice = 8, dmg_modifier = by_stat ''DEX'',
                          dmg_type = ''piercing''\<rparr>\<rparr>"

definition sling :: attack where
  "sling =
     longbow\<lparr>atk_id := ''a4'', atk_name := ''Sling'',
              atk_range := \<lparr>rng_reach = 0, rng_standard = 30, rng_long = 0\<rparr>\<rparr>"

definition longsword :: attack where
  "longsword =
     claw\<lparr>atk_id := ''a5'', atk_name := ''Longsword'',
          atk_damage := \<lparr>dmg_count = 1, dmg_dice = 8, dmg_modifier = by_stat ''STR'',
                          dmg_type = ''slashing''\<rparr>,
          atk_alternateDamage :=
            \<lparr>alt_active = True, alt_count = 1, alt_dice = 10,
             alt_modifier = by_stat ''STR'', alt_type = ''bludgeoning'',
             alt_condition = ''if used with two hands''\<rparr>\<rparr>"

definition bite :: action where
  "bite =
     \<lparr>act_id = ''x1'', act_name = ''Bite'',
      act_description = ''{NAME} bites: a {DC:STR} save or be grappled.'',
      act_limitedUse = None, act_legendaryOnly = False, act_bonusAction = False\<rparr>"

definition wyrm :: json_stats where
  "wyrm =
     \<lparr>m_name = ''Wyrm'', m_size = ''Large'', m_type = ''dragon'',
      m_alignment = ''chaotic evil'', m_languages = ''Draconic'', m_AC = 17, m_CR = 5,
      m_useArticleInToken = True, m_proficiency = 3,
      m_stats = [(''STR'', 18), (''DEX'', 12), (''CON'', 16), (''INT'', 8), (''WIS'', 13),
                 (''CHA'', 10)],
      m_HP = \<lparr>hp_HD = 9, hp_type = 10\<rparr>,
      m_saves = [(''STR'', no_save), (''DEX'', no_save), (''CON'', no_save),
                 (''INT'', no_save), (''WIS'', no_save), (''CHA'', no_save)],
      m_skills = [],
      m_senses = [(''darkvision'', 60)],
      m_speeds = [\<lparr>sp_type = ''walk'', sp_speed = 30, sp_note = []\<rparr>],
      m_vulnerabilities = [], m_resistances = [], m_immunities = [], m_conditions = [],
      m_traits = [],
      m_attacks = [claw, tail],
      m_actions = [bite],
      m_reactions = [],
      m_multiattacks = [],
      m_legendaryActions = []\<rparr>"

text \<open>The same monster with one part of the input changed.\<close>

definition wyrm_two_one :: json_stats where
  "wyrm_two_one =
     wyrm\<lparr>m_multiattacks := [\<lparr>ma_attacks = [''a1'', ''a1'', ''a2''], ma_actions = []\<rparr>]\<rparr>"

definition wyrm_mixed :: json_stats where
  "wyrm_mixed =
     wyrm\<lparr>m_multiattacks := [\<lparr>ma_attacks = [''a1''], ma_actions = [''x1'']\<rparr>]\<rparr>"

definition wyrm_dangling :: json_stats where
  "wyrm_dangling =
     wyrm\<lparr>m_multiattacks := [\<lparr>ma_attacks = [''zz'', ''yy''], ma_actions = []\<rparr>]\<rparr>"

definition bite_twice :: legendary_ref where
  "bite_twice = \<lparr>la_actionId = ''x1'', la_cost = 2\<rparr>"

definition wyrm_legendary :: json_stats where
  "wyrm_legendary = wyrm\<lparr>m_legendaryActions := [bite_twice]\<rparr>"

definition wyrm_archer :: json_stats where
  "wyrm_archer = wyrm\<lparr>m_attacks := [longbow]\<rparr>"

definition wyrm_slinger :: json_stats where
  "wyrm_slinger = wyrm\<lparr>m_attacks := [sling]\<rparr>"

definition wyrm_knight :: json_stats where
  "wyrm_knight = wyrm\<lparr>m_attacks := [longsword]\<rparr>"

definition wyrm_resistant :: json_stats where
  "wyrm_resistant =
     wyrm\<lparr>m_traits :=
            [\<lparr>tr_name = ''Legendary Resistance'',
              tr_description = ''{NAME} can choose to succeed on a failed save.'',
              tr_limitedUse = \<lparr>lu_count = 3, lu_rate = ''DAY''\<rparr>\<rparr>]\<rparr>"

definition wyrm_keen :: json_stats where
  "wyrm_keen =
     wyrm\<lparr>m_skills :=
            [\<lparr>sk_label = ''Perception'', sk_stat = ''WIS'', sk_override = False,
              sk_overrideValue = 0, sk_proficient = True, sk_expertise = False\<rparr>]\<rparr>"

section \<open>Vocabulary of the claims\<close>

text \<open>
  The ids an input defines, and the ids its multiattack groups and legendary actions refer
  to, in the order the source reaches them.
\<close>

definition known_ids :: "json_stats \<Rightarrow> string list" where
  "known_ids js = map atk_id (m_attacks js) @ map act_id (m_actions js)"

definition multiattack_refs :: "json_stats \<Rightarrow> string list" where
  "multiattack_refs js =
     concat (map (\<lambda>ma. ma_attacks ma @ ma_actions ma) (m_multiattacks js))"

definition legendary_refs :: "json_stats \<Rightarrow> string list" where
  "legendary_refs js = map la_actionId (m_legendaryActions js)"

section \<open>Facts about the model\<close>

subsection \<open>Results and loops\<close>

lemma and_then_Inr_iff: "and_then m f = Inr y \<longleftrightarrow> (\<exists>x. m = Inr x \<and> f x = Inr y)"
  by (cases m) (simp_all add: and_then_def)

lemma and_then_Inl_iff:
  "and_then m f = Inl e \<longleftrightarrow> m = Inl e \<or> (\<exists>x. m = Inr x \<and> f x = Inl e)"
  by (cases m) (simp_all add: and_then_def)

lemma isl_and_then: "isl (and_then m f) \<longleftrightarrow> isl m \<or> isl (f (projr m))"
  by (cases m) (simp_all add: and_then_def)

lemma dict_get_Inr_iff: "dict_get d k = Inr v \<longleftrightarrow> map_of d k = Some v"
  by (simp add: dict_get_def split: option.splits)

lemma traverse_Inr_all2:
  "traverse f xs = Inr ys \<Longrightarrow> list_all2 (\<lambda>x y. f x = Inr y) xs ys"
  by (induction xs arbitrary: ys) (auto split: sum.splits)

lemma traverse_fails:
  "x \<in> set xs \<Longrightarrow> f x = Inl e \<Longrightarrow> \<exists>e'. traverse f xs = Inl e'"
  by (induction xs) (auto split: sum.splits)

lemma join_snoc_suffix: "suffix x (join sep (xs @ [x]))"
proof (induction xs rule: join.induct[of _ sep])
  case 1
  then show ?case by simp
next
  case (2 y)
  then show ?case by (simp add: suffix_def)
next
  case (3 y z zs)
  then show ?case by (auto simp: suffix_def)
qed

lemma find_append:
  "find P (xs @ ys) = (case find P xs of None \<Rightarrow> find P ys | Some x \<Rightarrow> Some x)"
  by (induction xs) auto

subsection \<open>Counting and looking up\<close>

lemma Counter_Nil: "Counter [] = []"
  by (simp add: Counter_def)

lemma Counter_two_one: "a \<noteq> b \<Longrightarrow> Counter [a, a, b] = [(a, 2), (b, 1)]"
  by (simp add: Counter_def)

lemma find_Counter_keys_aux:
  "find P (map fst (foldl (\<lambda>c x. AList.update x (case map_of c x of None \<Rightarrow> 1 | Some n \<Rightarrow> n + 1) c) c xs))
     = (case find P (map fst c) of None \<Rightarrow> find P xs | Some j \<Rightarrow> Some j)"
proof (induction xs arbitrary: c)
  case Nil
  then show ?case by (simp split: option.splits)
next
  case (Cons x xs)
  show ?case
  proof (cases "find P (map fst c)")
    case None
    then have none: "\<forall>k \<in> set (map fst c). \<not> P k"
      by (simp add: find_None_iff)
    show ?thesis
    proof (cases "P x")
      case True
      with none have "x \<notin> set (map fst c)"
        by blast
      with None True show ?thesis
        by (simp add: Cons.IH update_keys find_append)
    next
      case False
      with None show ?thesis
        by (simp add: Cons.IH update_keys find_append)
    qed
  next
    case (Some j)
    then show ?thesis
      by (simp add: Cons.IH update_keys find_append)
  qed
qed

lemma find_Counter_keys: "find P (map fst (Counter xs)) = find P xs"
  by (simp add: Counter_def find_Counter_keys_aux [where c = "[]", simplified])

lemma get_action_unknown:
  assumes "ident \<notin> set (known_ids js)"
  shows "get_action ident js = Inl (not_found ident)"
proof -
  from assms have "find (\<lambda>attack. atk_id attack = ident) (m_attacks js) = None"
    and "find (\<lambda>action. act_id action = ident) (m_actions js) = None"
    by (auto simp: known_ids_def find_None_iff)
  then show ?thesis
    by (simp add: get_action_def)
qed

lemma get_action_known:
  assumes "ident \<in> set (known_ids js)"
  shows "\<exists>e. get_action ident js = Inr e"
proof (cases "find (\<lambda>attack. atk_id attack = ident) (m_attacks js)")
  case None
  with assms have "find (\<lambda>action. act_id action = ident) (m_actions js) \<noteq> None"
    by (auto simp: known_ids_def find_None_iff)
  with None show ?thesis
    by (auto simp: get_action_def)
next
  case (Some a)
  then show ?thesis
    by (simp add: get_action_def)
qed

lemma resolve_modifier_Inr:
  "resolve_modifier js spec = Inr m \<Longrightarrow>
     (if mod_override spec then m = mod_overrideValue spec
      else \<exists>score. map_of (m_stats js) (mod_stat spec) = Some score \<and> m = calc_modifier score)"
  by (auto simp: resolve_modifier_def and_then_Inr_iff dict_get_Inr_iff split: if_splits)

subsection \<open>The multiattack sentence\<close>

text \<open>
  Rendering fails with the lookup error of the first id, in the order of the input, that
  no attack and no action carries; when there is none it returns.
\<close>

lemma traverse_render_attack:
  "case find (\<lambda>j. j \<notin> set (known_ids js)) (map fst items) of
     Some j \<Rightarrow> traverse (render_attack num2words js len) (List.enumerate k items)
               = Inl (not_found j)
   | None \<Rightarrow> \<exists>ys. traverse (render_attack num2words js len) (List.enumerate k items) = Inr ys"
proof (induction items arbitrary: k)
  case Nil
  then show ?case by simp
next
  case (Cons it items)
  obtain ident count where it: "it = (ident, count)"
    by (cases it)
  show ?case
  proof (cases "ident \<in> set (known_ids js)")
    case True
    then obtain e where "get_action ident js = Inr e"
      using get_action_known by blast
    with True Cons.IH [of "Suc k"] show ?thesis
      by (auto simp: it render_attack_def and_then_def split: option.splits)
  next
    case False
    then show ?thesis
      by (simp add: it render_attack_def and_then_def get_action_unknown)
  qed
qed

lemma traverse_render_action:
  "case find (\<lambda>j. j \<notin> set (known_ids js)) (map fst items) of
     Some j \<Rightarrow> traverse (render_action num2words js) items = Inl (not_found j)
   | None \<Rightarrow> \<exists>ys. traverse (render_action num2words js) items = Inr ys"
proof (induction items)
  case Nil
  then show ?case by simp
next
  case (Cons it items)
  obtain ident count where it: "it = (ident, count)"
    by (cases it)
  show ?case
  proof (cases "ident \<in> set (known_ids js)")
    case True
    then obtain e where "get_action ident js = Inr e"
      using get_action_known by blast
    with True Cons.IH show ?thesis
      by (auto simp: it render_action_def and_then_def split: option.splits)
  next
    case False
    then show ?thesis
      by (simp add: it render_action_def and_then_def get_action_unknown)
  qed
qed

lemma render_group_first_unknown:
  "case find (\<lambda>j. j \<notin> set (known_ids js)) (ma_attacks ma @ ma_actions ma) of
     Some j \<Rightarrow> render_group num2words js ma = Inl (not_found j)
   | None \<Rightarrow> \<exists>s. render_group num2words js ma = Inr s"
  using traverse_render_attack [where js = js and items = "Counter (ma_attacks ma)"
          and ?num2words = num2words and len = "length (Counter (ma_attacks ma))" and k = 0]
        traverse_render_action [where js = js and items = "Counter (ma_actions ma)"
          and ?num2words = num2words]
  by (auto simp: render_group_def Let_def find_Counter_keys find_append and_then_def
      split: option.splits)

lemma traverse_render_group:
  "case find (\<lambda>j. j \<notin> set (known_ids js))
          (concat (map (\<lambda>ma. ma_attacks ma @ ma_actions ma) mas)) of
     Some j \<Rightarrow> traverse (render_group num2words js) mas = Inl (not_found j)
   | None \<Rightarrow> \<exists>ss. traverse (render_group num2words js) mas = Inr ss"
proof (induction mas)
  case Nil
  then show ?case by simp
next
  case (Cons ma mas)
  from render_group_first_unknown [where js = js and ma = ma and ?num2words = num2words]
    Cons.IH show ?case
    by (auto simp: find_append simp del: append_assoc split: option.splits)
qed

lemma process_multiattack_first_unknown:
  "find (\<lambda>j. j \<notin> set (known_ids js)) (multiattack_refs js) = Some j \<Longrightarrow>
     process_multiattack num2words js = Inl (not_found j)"
  using traverse_render_group [where js = js and mas = "m_multiattacks js"
          and ?num2words = num2words]
  by (simp add: process_multiattack_def multiattack_refs_def and_then_def)

text \<open>
  A rendered group always starts with \<open>makes\<close>: the list \<open>actions\<close> stays empty, so the
  branch of line 82 is never taken. The sentence is never empty, so the test of line 402
  always passes.
\<close>

lemma render_group_makes:
  "render_group num2words js ma = Inr s \<Longrightarrow> prefix ''makes '' s"
  by (auto simp: render_group_def Let_def and_then_Inr_iff)

lemma process_multiattack_nonempty:
  "process_multiattack num2words js = Inr s \<Longrightarrow> s \<noteq> []"
  by (auto simp: process_multiattack_def and_then_Inr_iff)

subsection \<open>Legendary actions, traits, attacks\<close>

lemma process_legendary_actions_empty:
  "process_legendary_actions js = Inr items \<Longrightarrow> items = []"
  by (auto simp: process_legendary_actions_def and_then_Inr_iff)

lemma process_legendary_actions_unknown:
  assumes "ident \<in> set (legendary_refs js)" and "ident \<notin> set (known_ids js)"
  shows "\<exists>e. process_legendary_actions js = Inl e"
proof -
  from assms(1) obtain r where r: "r \<in> set (m_legendaryActions js)" "la_actionId r = ident"
    by (auto simp: legendary_refs_def)
  with assms(2) have "legendary_item js r = Inl (not_found ident)"
    by (simp add: legendary_item_def and_then_def get_action_unknown)
  from traverse_fails [where f = "legendary_item js", OF r(1) this] show ?thesis
    by (auto simp: process_legendary_actions_def and_then_def)
qed

lemma process_trait_unlimited:
  "lu_count (tr_limitedUse t) = 0 \<Longrightarrow> process_trait js t = Inr it \<Longrightarrow>
     item_name it = tr_name t \<and> process_description (tr_description t) js = Inr (item_desc it)"
  by (auto simp: process_trait_def and_then_Inr_iff)

lemma process_trait_limited:
  "lu_count (tr_limitedUse t) \<noteq> 0 \<Longrightarrow> process_trait js t = Inl (AttributeError ''append'')"
  by (simp add: process_trait_def)

lemma process_attack_alternate:
  assumes "process_attack num2words float_str js attack = Inr it"
    and "alt_active (atk_alternateDamage attack)"
  shows "\<exists>m0 m.
           resolve_modifier js (dmg_modifier (atk_damage attack)) = Inr m0
           \<and> resolve_modifier js (alt_modifier (atk_alternateDamage attack)) = Inr m
           \<and> process_description
                 (''Hit: ''
                  @ damage_str (dmg_count (atk_damage attack)) (dmg_dice (atk_damage attack)) m0
                      (dmg_type (atk_damage attack))
                  @ '', or ''
                  @ damage_str (alt_count (atk_alternateDamage attack))
                      (alt_dice (atk_alternateDamage attack)) m (dmg_type (atk_damage attack))
                  @ '' '' @ alt_condition (atk_alternateDamage attack)
                  @ additional_text (atk_additionalDamage attack) @ ''.''
                  @ (if atk_description attack \<noteq> [] then '' '' @ atk_description attack
                     else [])) js
               = Inr (item_desc it)"
  using assms unfolding process_attack_def attack_description_def Let_def
  by (auto simp: and_then_Inr_iff split: if_splits)

subsection \<open>The conversion\<close>


lemma parse_stats_senses:
  assumes "parse_stats num2words float_str js = Inr out"
  shows "o_senses out = senses_str js (o_skillsaves out)"
  using assms unfolding parse_stats_def Let_def
  by (auto simp: and_then_Inr_iff simp del: traverse.simps)

lemma multiattack_entry_always:
  assumes "parse_stats num2words float_str js = Inr out"
  shows "\<exists>desc rest. o_actions out = \<lparr>item_name = ''Multiattack'', item_desc = desc\<rparr> # rest"
  using assms unfolding parse_stats_def Let_def
  by (auto simp: and_then_Inr_iff dest: process_multiattack_nonempty simp del: traverse.simps
      split: if_splits)

lemma parse_stats_fails_multiattack:
  "process_multiattack num2words js = Inl e \<Longrightarrow> isl (parse_stats num2words float_str js)"
  unfolding parse_stats_def Let_def
  by (simp add: isl_and_then del: traverse.simps)

lemma parse_stats_fails_legendary:
  "process_legendary_actions js = Inl e \<Longrightarrow> isl (parse_stats num2words float_str js)"
  unfolding parse_stats_def Let_def
  by (simp add: isl_and_then del: traverse.simps)

section \<open>Legendary actions\<close>

text \<open>
  C1. A reference with cost 2 to the action named Bite, which is not marked
  \<^verbatim>\<open>legendaryOnly\<close>: the round of the loop computes the entry the claim describes, name
  \<open>Bite (Costs 2 Actions)\<close> and description \<open>The Wyrm uses its Bite action.\<close>, and the
  list that is returned, and stored under \<open>legendary_actions\<close>, is empty.
\<close>

theorem legendary_actions_dropped:
  "legendary_item wyrm_legendary bite_twice
     = Inr \<lparr>item_name = ''Bite (Costs 2 Actions)'',
            item_desc = ''The Wyrm uses its Bite action.''\<rparr>
   \<and> process_legendary_actions wyrm_legendary = Inr []
   \<and> map_sum id o_legendary_actions (parse_stats small_words quarter_text wyrm_legendary)
     = Inr []"
  by code_simp

section \<open>Multiattack groups\<close>

text \<open>
  C2. A group with one reference to the attack Claw and one to the action Bite is rendered
  \<open>makes one Claw attack, one Bite\<close>: the phrase of the action is appended to the attacks
  and the form with \<open>uses\<close> and \<open>followed by\<close> is not produced.
\<close>

theorem multiattack_actions_rendered_as_attacks:
  "process_multiattack small_words wyrm_mixed
     = Inr ''Wyrm makes one Claw attack, one Bite.''
   \<and> process_multiattack small_words wyrm_mixed
     \<noteq> Inr ''Wyrm uses one Bite followed by one Claw attack.''"
  by code_simp

text \<open>
  C6. The monster of the examples has no multiattack group. The sentence rendered for it
  is its name, a space and a period, which is not empty, and the actions of the output
  start with a Multiattack entry of that description.
\<close>

theorem multiattack_entry_without_groups:
  "m_multiattacks wyrm = []
   \<and> process_multiattack small_words wyrm = Inr ''Wyrm .''
   \<and> map_sum id (\<lambda>out. map item_name (o_actions out))
        (parse_stats small_words quarter_text wyrm)
      = Inr [''Multiattack'', ''Claw'', ''Tail'', ''Bite'']
   \<and> map_sum id (\<lambda>out. take 1 (o_actions out)) (parse_stats small_words quarter_text wyrm)
      = Inr [\<lparr>item_name = ''Multiattack'', item_desc = ''Wyrm .''\<rparr>]"
  by code_simp

text \<open>
  C7, as the code has it. For one group whose attack references are \<open>a, a, b\<close>, with
  \<open>a\<close> and \<open>b\<close> different ids that resolve, and no action reference, the sentence is
  the name of the monster, \<open>makes two A attacks, and one B attack\<close> with \<open>A\<close> and \<open>B\<close>
  the names of the two entries, and a period: the phrases are joined by a comma and a
  space, the last one starting with \<open>and\<close>.
\<close>

theorem multiattack_two_and_one:
  assumes "m_multiattacks js = [\<lparr>ma_attacks = [a, a, b], ma_actions = []\<rparr>]"
    and "a \<noteq> b"
    and "get_action a js = Inr ea"
    and "get_action b js = Inr eb"
    and "num2words 2 = ''two''"
    and "num2words 1 = ''one''"
  shows "process_multiattack num2words js =
           Inr (m_name js @ '' makes two '' @ entry_name ea @ '' attacks, and one ''
                @ entry_name eb @ '' attack.'')"
  using assms
  by (simp add: process_multiattack_def render_group_def render_attack_def
      Counter_two_one Counter_Nil and_then_def)

text \<open>Two references to Claw, then one to Tail.\<close>

theorem multiattack_two_and_one_witness:
  "''a1'' \<noteq> ''a2''
   \<and> get_action ''a1'' wyrm_two_one = Inr (Attack claw)
   \<and> get_action ''a2'' wyrm_two_one = Inr (Attack tail)
   \<and> small_words 2 = ''two'' \<and> small_words 1 = ''one''
   \<and> process_multiattack small_words wyrm_two_one
       = Inr ''Wyrm makes two Claw attacks, and one Tail attack.''"
proof -
  have groups: "m_multiattacks wyrm_two_one
                  = [\<lparr>ma_attacks = [''a1'', ''a1'', ''a2''], ma_actions = []\<rparr>]"
    by (simp add: wyrm_two_one_def)
  have ids: "''a1'' \<noteq> ''a2''"
    by simp
  have first: "get_action ''a1'' wyrm_two_one = Inr (Attack claw)"
    by code_simp
  have second: "get_action ''a2'' wyrm_two_one = Inr (Attack tail)"
    by code_simp
  have two: "small_words 2 = ''two''" and one: "small_words 1 = ''one''"
    by (simp_all add: small_words_def)
  have names: "m_name wyrm_two_one = ''Wyrm''" "entry_name (Attack claw) = ''Claw''"
    "entry_name (Attack tail) = ''Tail''"
    by (simp_all add: wyrm_two_one_def wyrm_def entry_name_def claw_def tail_def)
  from multiattack_two_and_one [OF groups ids first second two one]
  have "process_multiattack small_words wyrm_two_one
          = Inr ''Wyrm makes two Claw attacks, and one Tail attack.''"
    by (simp add: names)
  with ids first second two one show ?thesis
    by blast
qed

text \<open>
  C7 as stated has no comma between the two phrases. The sentence of the same monster is
  not the one without the comma, in the rendered string and in the output entry.
\<close>

theorem multiattack_without_comma_counterexample:
  "process_multiattack small_words wyrm_two_one
     = Inr ''Wyrm makes two Claw attacks, and one Tail attack.''
   \<and> process_multiattack small_words wyrm_two_one
     \<noteq> Inr ''Wyrm makes two Claw attacks and one Tail attack.''
   \<and> map_sum id (\<lambda>out. take 1 (o_actions out))
       (parse_stats small_words quarter_text wyrm_two_one)
     = Inr [\<lparr>item_name = ''Multiattack'',
             item_desc = ''Wyrm makes two Claw attacks, and one Tail attack.''\<rparr>]"
  by code_simp

section \<open>Attack descriptions\<close>

text \<open>
  C3. A ranged attack with ranges 30 and 120. The range clause is made of the quotient of
  the two, the float \<open>0.25\<close>, not of the pair; the string that holds the clause is not
  part of the entry, whose description starts at \<open>Hit:\<close>; and with a long range of 0
  the division raises and the conversion has no output.
\<close>

theorem range_clause_divides_and_is_dropped:
  "range_clause float_str longbow = Inr (''range '' @ float_str (1 / 4) @ '' ft.'')
   \<and> attack_str small_words quarter_text wyrm_archer longbow
       = Inr ''Ranged Weapon Attack: +1 to hit, range 0.25 ft., one target. ''
   \<and> process_attacks small_words quarter_text wyrm_archer
       = Inr [\<lparr>item_name = ''Longbow'', item_desc = ''Hit: 5 (1d8+1) piercing damage.''\<rparr>]
   \<and> parse_stats small_words quarter_text wyrm_slinger = Inl ZeroDivisionError"
  apply (intro conjI)
     apply (simp add: range_clause_def longbow_def claw_def)
    apply code_simp
   apply code_simp
  apply code_simp
  done

text \<open>
  C8, as the code has it. For the attack at position \<open>i\<close> of the input, with an active
  alternate damage, when the attacks are processed without error: the description of
  entry \<open>i\<close> is the tag substitution of the text that has, after the primary damage
  phrase, a comma, \<open>or\<close>, the damage phrase of the count, the dice and the resolved
  modifier of the alternate damage with the damage type of the primary damage, a space
  and the condition text. The resolved modifier is the override value when the override
  is set and the modifier of the score of its ability otherwise.
\<close>

theorem alternate_damage_clause:
  assumes "process_attacks num2words float_str js = Inr items"
    and "i < length (m_attacks js)"
    and "alt_active (atk_alternateDamage (m_attacks js ! i))"
  shows "\<exists>m0 m.
           resolve_modifier js (dmg_modifier (atk_damage (m_attacks js ! i))) = Inr m0
           \<and> resolve_modifier js (alt_modifier (atk_alternateDamage (m_attacks js ! i))) = Inr m
           \<and> (if mod_override (alt_modifier (atk_alternateDamage (m_attacks js ! i)))
                then m = mod_overrideValue (alt_modifier (atk_alternateDamage (m_attacks js ! i)))
                else \<exists>score. map_of (m_stats js)
                                (mod_stat (alt_modifier (atk_alternateDamage (m_attacks js ! i))))
                              = Some score
                            \<and> m = calc_modifier score)
           \<and> process_description
                 (''Hit: ''
                  @ damage_str (dmg_count (atk_damage (m_attacks js ! i)))
                      (dmg_dice (atk_damage (m_attacks js ! i))) m0
                      (dmg_type (atk_damage (m_attacks js ! i)))
                  @ '', or ''
                  @ damage_str (alt_count (atk_alternateDamage (m_attacks js ! i)))
                      (alt_dice (atk_alternateDamage (m_attacks js ! i))) m
                      (dmg_type (atk_damage (m_attacks js ! i)))
                  @ '' '' @ alt_condition (atk_alternateDamage (m_attacks js ! i))
                  @ additional_text (atk_additionalDamage (m_attacks js ! i)) @ ''.''
                  @ (if atk_description (m_attacks js ! i) \<noteq> []
                     then '' '' @ atk_description (m_attacks js ! i) else [])) js
               = Inr (item_desc (items ! i))"
proof -
  from assms(1) have "list_all2 (\<lambda>x y. process_attack num2words float_str js x = Inr y)
                        (m_attacks js) items"
    unfolding process_attacks_def by (rule traverse_Inr_all2)
  from list_all2_nthD [OF this assms(2)]
  have "process_attack num2words float_str js (m_attacks js ! i) = Inr (items ! i)"
    by simp
  from process_attack_alternate [OF this assms(3)] obtain m0 m where
    a: "resolve_modifier js (dmg_modifier (atk_damage (m_attacks js ! i))) = Inr m0" and
    b: "resolve_modifier js (alt_modifier (atk_alternateDamage (m_attacks js ! i))) = Inr m" and
    c: "process_description
                 (''Hit: ''
                  @ damage_str (dmg_count (atk_damage (m_attacks js ! i)))
                      (dmg_dice (atk_damage (m_attacks js ! i))) m0
                      (dmg_type (atk_damage (m_attacks js ! i)))
                  @ '', or ''
                  @ damage_str (alt_count (atk_alternateDamage (m_attacks js ! i)))
                      (alt_dice (atk_alternateDamage (m_attacks js ! i))) m
                      (dmg_type (atk_damage (m_attacks js ! i)))
                  @ '' '' @ alt_condition (atk_alternateDamage (m_attacks js ! i))
                  @ additional_text (atk_additionalDamage (m_attacks js ! i)) @ ''.''
                  @ (if atk_description (m_attacks js ! i) \<noteq> []
                     then '' '' @ atk_description (m_attacks js ! i) else [])) js
               = Inr (item_desc (items ! i))"
    by blast
  from resolve_modifier_Inr [OF b] a b c show ?thesis
    by blast
qed

text \<open>A longsword: one eight-sided die, or one ten-sided die with two hands.\<close>

theorem alternate_damage_clause_witness:
  "(0 :: nat) < length (m_attacks wyrm_knight)
   \<and> alt_active (atk_alternateDamage (m_attacks wyrm_knight ! 0))
   \<and> resolve_modifier wyrm_knight (alt_modifier (atk_alternateDamage longsword)) = Inr 4
   \<and> process_description
         (''Hit: '' @ damage_str 1 8 4 ''slashing'' @ '', or ''
          @ damage_str 1 10 4 ''slashing'' @ '' if used with two hands.'') wyrm_knight
       = Inr ''Hit: 8 (1d8+4) slashing damage, or 9 (1d10+4) slashing damage if used with two hands.''"
proof -
  have run: "process_attacks small_words quarter_text wyrm_knight
               = Inr [\<lparr>item_name = ''Longsword'',
                       item_desc = ''Hit: 8 (1d8+4) slashing damage, or 9 (1d10+4) slashing damage if used with two hands.''\<rparr>]"
    by code_simp
  have first: "m_attacks wyrm_knight ! 0 = longsword"
    by (simp add: wyrm_knight_def)
  have pos: "(0 :: nat) < length (m_attacks wyrm_knight)"
    by (simp add: wyrm_knight_def)
  have active: "alt_active (atk_alternateDamage (m_attacks wyrm_knight ! 0))"
    by (simp add: first longsword_def)
  have primary: "resolve_modifier wyrm_knight (dmg_modifier (atk_damage longsword)) = Inr 4"
    by code_simp
  have alternate:
    "resolve_modifier wyrm_knight (alt_modifier (atk_alternateDamage longsword)) = Inr 4"
    by code_simp
  have fields:
    "dmg_count (atk_damage longsword) = 1" "dmg_dice (atk_damage longsword) = 8"
    "dmg_type (atk_damage longsword) = ''slashing''"
    "alt_count (atk_alternateDamage longsword) = 1"
    "alt_dice (atk_alternateDamage longsword) = 10"
    "alt_condition (atk_alternateDamage longsword) = ''if used with two hands''"
    "atk_additionalDamage longsword = []" "atk_description longsword = []"
    by (simp_all add: longsword_def claw_def)
  from alternate_damage_clause [OF run pos active]
  have "process_description
         (''Hit: '' @ damage_str 1 8 4 ''slashing'' @ '', or ''
          @ damage_str 1 10 4 ''slashing'' @ '' if used with two hands.'') wyrm_knight
       = Inr ''Hit: 8 (1d8+4) slashing damage, or 9 (1d10+4) slashing damage if used with two hands.''"
    by (auto simp: first primary alternate fields additional_text_def)
  with pos active alternate show ?thesis
    by blast
qed

text \<open>
  C8 as stated takes the damage type of the alternate damage itself. The alternate damage
  of the longsword is bludgeoning; its phrase in the output says slashing, the type of the
  primary damage, and the phrase with its own type is nowhere in the description.
\<close>

theorem alternate_damage_own_type_counterexample:
  "alt_active (atk_alternateDamage longsword)
   \<and> alt_type (atk_alternateDamage longsword) = ''bludgeoning''
   \<and> process_attacks small_words quarter_text wyrm_knight
       = Inr [\<lparr>item_name = ''Longsword'',
               item_desc = ''Hit: 8 (1d8+4) slashing damage, or 9 (1d10+4) slashing damage if used with two hands.''\<rparr>]
   \<and> damage_str 1 10 4 ''bludgeoning'' = ''9 (1d10+4) bludgeoning damage''
   \<and> \<not> sublist ''9 (1d10+4) bludgeoning damage''
           ''Hit: 8 (1d8+4) slashing damage, or 9 (1d10+4) slashing damage if used with two hands.''"
  by code_simp

section \<open>Traits\<close>

text \<open>
  C5. A trait with three uses a day: the conversion raises at line 389, where the source
  calls \<^verbatim>\<open>append\<close> on a string, and there is no output at all.
\<close>

theorem trait_with_limited_use_raises:
  "parse_stats small_words quarter_text wyrm_resistant = Inl (AttributeError ''append'')"
  by code_simp

section \<open>Hit points\<close>



section \<open>Passive perception\<close>

text \<open>
  C4, as the code has it. When the conversion returns, the senses string ends with
  \<open>Passive Perception p\<close>, where \<open>p\<close> is the perception entry of the skills mapping of
  the output when there is one, and 0 when there is none: the source starts from 0, not
  from 10.
\<close>

theorem senses_end_in_perception_bonus:
  assumes "parse_stats num2words float_str js = Inr out"
  shows "suffix (''Passive Perception ''
                 @ str_int (case map_of (o_skillsaves out) ''perception'' of
                              None \<Rightarrow> 0 | Some bonus \<Rightarrow> bonus))
           (o_senses out)"
proof -
  have "passive_perception (o_skillsaves out) =
          (case map_of (o_skillsaves out) ''perception'' of None \<Rightarrow> 0 | Some bonus \<Rightarrow> bonus)"
    by (simp add: passive_perception_def split: option.splits)
  then show ?thesis
    unfolding parse_stats_senses [OF assms] senses_str_def Let_def
    by (simp only: join_snoc_suffix)
qed

text \<open>A monster proficient in perception, with a wisdom of 13 and a proficiency of 3.\<close>

theorem senses_end_in_perception_bonus_witness:
  "\<exists>out. parse_stats small_words quarter_text wyrm_keen = Inr out
         \<and> map_of (o_skillsaves out) ''perception'' = Some 4
         \<and> suffix ''Passive Perception 4'' (o_senses out)"
proof -
  have "\<not> isl (parse_stats small_words quarter_text wyrm_keen)"
    by code_simp
  then obtain out where out: "parse_stats small_words quarter_text wyrm_keen = Inr out"
    by (cases "parse_stats small_words quarter_text wyrm_keen") auto
  have skills: "map_sum id o_skillsaves (parse_stats small_words quarter_text wyrm_keen)
                  = Inr [(''perception'', 4)]"
    by code_simp
  have four: "str_int 4 = ''4''"
    by code_simp
  from skills out have "o_skillsaves out = [(''perception'', 4)]"
    by simp
  with senses_end_in_perception_bonus [OF out] four out show ?thesis
    by auto
qed

text \<open>
  C4 as stated asks for 10 when the skills mapping has no perception entry. The monster of
  the examples has none, and its senses end with \<open>Passive Perception 0\<close>.
\<close>

theorem passive_perception_base_counterexample:
  "map_sum id o_skillsaves (parse_stats small_words quarter_text wyrm) = Inr []
   \<and> map_sum id o_senses (parse_stats small_words quarter_text wyrm)
       = Inr ''Darkvision 60 ft., Passive Perception 0''
   \<and> \<not> suffix ''Passive Perception 10'' ''Darkvision 60 ft., Passive Perception 0''"
  by code_simp

section \<open>References that do not resolve\<close>

text \<open>
  C10, as the code has it. When an id that a multiattack group or a legendary action
  refers to is the id of no attack and of no action, looking it up raises the lookup error
  that names it, and the conversion raises and returns no output. When a multiattack
  group refers to it, rendering the multiattack raises the
  lookup error of the first such id in the order of the input, one error for one id; when
  a legendary action refers to it, processing the legendary actions raises. The
  conversion raises the first error it meets.
\<close>

theorem unresolved_reference_is_fatal:
  assumes "ident \<in> set (multiattack_refs js) \<union> set (legendary_refs js)"
    and "ident \<notin> set (known_ids js)"
  shows "get_action ident js = Inl (not_found ident)
       \<and> (\<exists>e. parse_stats num2words float_str js = Inl e)
       \<and> (ident \<in> set (multiattack_refs js) \<longrightarrow>
            (\<exists>j. find (\<lambda>j. j \<notin> set (known_ids js)) (multiattack_refs js) = Some j
                 \<and> process_multiattack num2words js = Inl (not_found j)))
       \<and> (ident \<in> set (legendary_refs js) \<longrightarrow> (\<exists>e. process_legendary_actions js = Inl e))"
proof -
  have multi: "\<exists>j. find (\<lambda>j. j \<notin> set (known_ids js)) (multiattack_refs js) = Some j
                 \<and> process_multiattack num2words js = Inl (not_found j)"
    if "ident \<in> set (multiattack_refs js)"
  proof -
    from that assms(2)
    have "find (\<lambda>j. j \<notin> set (known_ids js)) (multiattack_refs js) \<noteq> None"
      by (auto simp: find_None_iff)
    then obtain j where "find (\<lambda>j. j \<notin> set (known_ids js)) (multiattack_refs js) = Some j"
      by blast
    with process_multiattack_first_unknown [OF this] show ?thesis
      by blast
  qed
  have legend: "\<exists>e. process_legendary_actions js = Inl e"
    if "ident \<in> set (legendary_refs js)"
    using that assms(2) by (rule process_legendary_actions_unknown)
  have "isl (parse_stats num2words float_str js)"
  proof (cases "ident \<in> set (multiattack_refs js)")
    case True
    with multi show ?thesis
      by (blast intro: parse_stats_fails_multiattack)
  next
    case False
    with assms(1) have "ident \<in> set (legendary_refs js)"
      by simp
    with legend show ?thesis
      by (blast intro: parse_stats_fails_legendary)
  qed
  then have "\<exists>e. parse_stats num2words float_str js = Inl e"
    by (cases "parse_stats num2words float_str js") auto
  with multi legend get_action_unknown [OF assms(2)] show ?thesis
    by blast
qed

text \<open>A group that refers to \<open>zz\<close> and then to \<open>yy\<close>, neither of them defined.\<close>

theorem unresolved_reference_is_fatal_witness:
  "''yy'' \<in> set (multiattack_refs wyrm_dangling) \<union> set (legendary_refs wyrm_dangling)
   \<and> ''yy'' \<notin> set (known_ids wyrm_dangling)
   \<and> (\<exists>e. parse_stats small_words quarter_text wyrm_dangling = Inl e)
   \<and> process_multiattack small_words wyrm_dangling = Inl (not_found ''zz'')"
proof -
  have refd: "''yy'' \<in> set (multiattack_refs wyrm_dangling) \<union> set (legendary_refs wyrm_dangling)"
    by code_simp
  have unknown: "''yy'' \<notin> set (known_ids wyrm_dangling)"
    by code_simp
  have inm: "''yy'' \<in> set (multiattack_refs wyrm_dangling)"
    by code_simp
  have first: "find (\<lambda>j. j \<notin> set (known_ids wyrm_dangling)) (multiattack_refs wyrm_dangling)
                 = Some ''zz''"
    by code_simp
  from unresolved_reference_is_fatal [OF refd unknown, of small_words quarter_text] inm first
  have "(\<exists>e. parse_stats small_words quarter_text wyrm_dangling = Inl e)
        \<and> process_multiattack small_words wyrm_dangling = Inl (not_found ''zz'')"
    by auto
  with refd unknown show ?thesis
    by blast
qed

text \<open>
  C10 as stated has the error name every offending id. For the same monster \<open>yy\<close> is
  referred to and not defined, and the error of the conversion names \<open>zz\<close>.
\<close>

theorem lookup_error_names_first_id_counterexample:
  "''yy'' \<in> set (multiattack_refs wyrm_dangling)
   \<and> ''yy'' \<notin> set (known_ids wyrm_dangling)
   \<and> parse_stats small_words quarter_text wyrm_dangling
       = Inl (ValueError ''Attack with ID zz not found'')
   \<and> parse_stats small_words quarter_text wyrm_dangling \<noteq> Inl (not_found ''yy'')"
  by code_simp

end
